theory Spec2Isabelle
  imports Complex_Main
begin

section \<open>JavaScript values used by \<^verbatim>\<open>src/client/Client.ts\<close>\<close>

text \<open>
  Errors are values. \<open>Error msg\<close> is \<^verbatim>\<open>new Error(msg)\<close>; \<open>SyntaxError\<close> is what
  \<^verbatim>\<open>BigInt(s)\<close> throws on a string that is no integer literal; \<open>RangeError\<close> is a
  BigInt division by zero or \<^verbatim>\<open>String.prototype.repeat\<close> with a negative count;
  \<open>TypeError\<close> is an index read on \<^verbatim>\<open>undefined\<close>. The last four tag the rejection of
  an awaited or imported call by where it comes from: a ledger read, the \<^verbatim>\<open>ethers\<close>
  address check, the proving helpers, or a ledger write (a revert, with its reason).
\<close>

datatype error =
    Error string
  | SyntaxError
  | RangeError
  | TypeError
  | ReadFailed string
  | InvalidAddress string
  | ProverFailed string
  | ChainRejected string

subsection \<open>BigInt\<close>

text \<open>
  A \<^verbatim>\<open>bigint\<close> is an \<open>int\<close>. BigInt division truncates towards zero and throws
  a RangeError on a zero divisor.
\<close>

definition bigint_div :: "int \<Rightarrow> int \<Rightarrow> error + int" where
  "bigint_div a b =
     (if b = 0 then Inl RangeError else Inr (sgn a * sgn b * (\<bar>a\<bar> div \<bar>b\<bar>)))"

text \<open>
  \<^verbatim>\<open>BigInt(string)\<close> is the StringToBigInt of ECMAScript: the string is trimmed
  of white space; the empty string is 0; otherwise it is decimal digits with an
  optional sign, or an unsigned literal with prefix 0x, 0o or 0b; anything else
  is a SyntaxError. Strings are byte strings here, so only the ASCII white space
  characters are trimmed.
\<close>

definition is_ws :: "char \<Rightarrow> bool" where
  "is_ws c = (let n = (of_char c :: nat) in (9 \<le> n \<and> n \<le> 13) \<or> n = 32)"

definition trim :: "string \<Rightarrow> string" where
  "trim s = rev (dropWhile is_ws (rev (dropWhile is_ws s)))"

definition digit_of :: "char \<Rightarrow> nat" where
  "digit_of c =
     (let n = (of_char c :: nat) in
      if 48 \<le> n \<and> n \<le> 57 then n - 48
      else if 97 \<le> n \<and> n \<le> 102 then n - 87
      else if 65 \<le> n \<and> n \<le> 70 then n - 55
      else 36)"

definition is_digits :: "nat \<Rightarrow> string \<Rightarrow> bool" where
  "is_digits base s = (s \<noteq> [] \<and> list_all (\<lambda>c. digit_of c < base) s)"

definition digits_value :: "nat \<Rightarrow> string \<Rightarrow> nat" where
  "digits_value base s = foldl (\<lambda>acc c. acc * base + digit_of c) 0 s"

definition StringToBigInt :: "string \<Rightarrow> int option" where
  "StringToBigInt str =
     (let s = trim str in
      if s = [] then Some 0
      else if is_digits 10 s then Some (int (digits_value 10 s))
      else if hd s = CHR ''+'' \<and> is_digits 10 (tl s) then Some (int (digits_value 10 (tl s)))
      else if hd s = CHR ''-'' \<and> is_digits 10 (tl s) then Some (- int (digits_value 10 (tl s)))
      else if (take 2 s = ''0x'' \<or> take 2 s = ''0X'') \<and> is_digits 16 (drop 2 s)
        then Some (int (digits_value 16 (drop 2 s)))
      else if (take 2 s = ''0o'' \<or> take 2 s = ''0O'') \<and> is_digits 8 (drop 2 s)
        then Some (int (digits_value 8 (drop 2 s)))
      else if (take 2 s = ''0b'' \<or> take 2 s = ''0B'') \<and> is_digits 2 (drop 2 s)
        then Some (int (digits_value 2 (drop 2 s)))
      else None)"

definition BigInt :: "string \<Rightarrow> error + int" where
  "BigInt s = (case StringToBigInt s of None \<Rightarrow> Inl SyntaxError | Some v \<Rightarrow> Inr v)"

subsection \<open>Number\<close>

text \<open>
  A \<^verbatim>\<open>number\<close> is an IEEE 754 double. The numbers of the client are balances and
  amounts, so the model has the integer-valued doubles, the two infinities and NaN
  (\<open>Finite n\<close> with \<open>n\<close> a representable integer; the sign of zero is not kept, which
  no operation below can observe). \<open>round_nat\<close> rounds a natural number to the
  nearest number with a 53-bit significand, ties to even; \<open>to_double\<close> is the
  double nearest to an integer, an infinity from \<open>2 ^ 1024\<close> on.
\<close>

datatype number = Finite int | PosInfinity | NegInfinity | NaN

fun bit_len :: "nat \<Rightarrow> nat" where
  "bit_len n = (if n = 0 then 0 else Suc (bit_len (n div 2)))"

declare bit_len.simps [simp del]

definition round_nat :: "nat \<Rightarrow> nat" where
  "round_nat m =
     (if m < 2 ^ 53 then m
      else (let k = bit_len m - 53; q = m div 2 ^ k; r = m mod 2 ^ k in
            if 2 ^ k < 2 * r \<or> (2 * r = 2 ^ k \<and> odd q) then (q + 1) * 2 ^ k
            else q * 2 ^ k))"

definition to_double :: "int \<Rightarrow> number" where
  "to_double n =
     (let m = round_nat (nat \<bar>n\<bar>) in
      if 2 ^ 1024 \<le> m then (if n < 0 then NegInfinity else PosInfinity)
      else Finite (sgn n * int m))"

text \<open>The subtraction of two numbers: the exact difference, correctly rounded.\<close>

fun js_sub :: "number \<Rightarrow> number \<Rightarrow> number" where
  "js_sub (Finite a) (Finite b) = to_double (a - b)"
| "js_sub NaN _ = NaN"
| "js_sub _ NaN = NaN"
| "js_sub PosInfinity PosInfinity = NaN"
| "js_sub NegInfinity NegInfinity = NaN"
| "js_sub PosInfinity _ = PosInfinity"
| "js_sub NegInfinity _ = NegInfinity"
| "js_sub (Finite a) PosInfinity = NegInfinity"
| "js_sub (Finite a) NegInfinity = PosInfinity"

text \<open>
  \<^verbatim>\<open>!cur_b\<close> for a \<^verbatim>\<open>number | undefined\<close>: \<^verbatim>\<open>undefined\<close>, zero and NaN are falsy.
\<close>

fun falsy :: "number option \<Rightarrow> bool" where
  "falsy None = True"
| "falsy (Some (Finite n)) = (n = 0)"
| "falsy (Some NaN) = True"
| "falsy (Some PosInfinity) = False"
| "falsy (Some NegInfinity) = False"

section \<open>Calls and their trace\<close>

text \<open>
  A curve point as the ledger takes it (\<^verbatim>\<open>SolidityPointInput\<close>) is a pair of
  coordinates, and so is a point of the curve library. The account data of the
  ledger is the pair \<^verbatim>\<open>[CL, CR]\<close>.
\<close>

type_synonym point = "int \<times> int"
type_synonym account_data = "point \<times> point"

text \<open>
  The inputs of the two provers, as the object literals of \<^verbatim>\<open>burn\<close> and
  \<^verbatim>\<open>transfer\<close> build them. A field that the source renders with \<^verbatim>\<open>toString()\<close>
  holds the value that is rendered.
\<close>

record burn_input =
  bi_y :: "string list"
  bi_sk :: int
  bi_CL :: "string list"
  bi_CR :: "string list"
  bi_b :: string
  bi_cur_b :: number
  bi_counter :: int

record transfer_input =
  ti_sk :: int
  ti_r :: int
  ti_sAmount :: string
  ti_bRem :: number
  ti_MAX :: int
  ti_CS :: "string list"
  ti_D :: "string list"
  ti_CRe :: "string list"
  ti_y :: "string list"
  ti_yR :: "string list"
  ti_CL :: "string list"
  ti_CR :: "string list"
  ti_counter :: int

record proof_result =
  proof_obj :: "int list"
  publicSignals :: "int list"

record calldata =
  pA :: "int list"
  pB :: "int list"
  pC :: "int list"

text \<open>
  Every call that leaves the client is an event: the ledger reads, the block
  number, the balance decode, the two provers, the calldata helper and the ledger
  writes, each with its arguments. The last argument of a write is the sending
  account.
\<close>

datatype event =
    Read_epochLength
  | GetBlockNumber
  | Read_simulateAccounts "point list" int
  | Read_counter string
  | Read_MAX
  | Decode "account_data option" int
  | GenerateBurnProof burn_input
  | GenerateTransferProof transfer_input
  | GenerateCalldata "int list" "int list"
  | Write_burn point int "int list" string
  | Write_transfer point point point point point "int list" string
  | Write_lock point string int int string

fun is_write :: "event \<Rightarrow> bool" where
  "is_write (Write_burn _ _ _ _) = True"
| "is_write (Write_transfer _ _ _ _ _ _ _) = True"
| "is_write (Write_lock _ _ _ _ _) = True"
| "is_write _ = False"

fun is_network :: "event \<Rightarrow> bool" where
  "is_network Read_epochLength = True"
| "is_network GetBlockNumber = True"
| "is_network (Read_simulateAccounts _ _) = True"
| "is_network (Read_counter _) = True"
| "is_network Read_MAX = True"
| "is_network ev = is_write ev"

fun is_prove :: "event \<Rightarrow> bool" where
  "is_prove (GenerateBurnProof _) = True"
| "is_prove (GenerateTransferProof _) = True"
| "is_prove _ = False"

fun is_decode :: "event \<Rightarrow> bool" where
  "is_decode (Decode _ _) = True"
| "is_decode _ = False"

text \<open>
  A run of an \<^verbatim>\<open>async\<close> method is the list of the events it issued, in order, and
  what it returned or threw.
\<close>

type_synonym 'a io = "event list \<times> (error + 'a)"

definition return_io :: "'a \<Rightarrow> 'a io" where
  "return_io x = ([], Inr x)"

definition throw :: "error \<Rightarrow> 'a io" where
  "throw e = ([], Inl e)"

definition lift :: "error + 'a \<Rightarrow> 'a io" where
  "lift r = ([], r)"

definition call :: "event \<Rightarrow> error + 'a \<Rightarrow> 'a io" where
  "call ev r = ([ev], r)"

definition bind_io :: "'a io \<Rightarrow> ('a \<Rightarrow> 'b io) \<Rightarrow> 'b io" where
  "bind_io m f =
     (case m of
        (t, Inl e) \<Rightarrow> (t, Inl e)
      | (t, Inr x) \<Rightarrow> (case f x of (t', r) \<Rightarrow> (t @ t', r)))"

text \<open>
  \<^verbatim>\<open>Promise.all\<close> of two calls: both are issued; it rejects when one of them does
  (with the rejection of the first of the two, when both do).
\<close>

definition promise_all2 :: "'a io \<Rightarrow> 'b io \<Rightarrow> ('a \<times> 'b) io" where
  "promise_all2 m1 m2 =
     (fst m1 @ fst m2,
      case snd m1 of
        Inl e \<Rightarrow> Inl e
      | Inr x \<Rightarrow> (case snd m2 of Inl e \<Rightarrow> Inl e | Inr y \<Rightarrow> Inr (x, y)))"

definition from_read :: "string + 'a \<Rightarrow> error + 'a" where
  "from_read r = (case r of Inl reason \<Rightarrow> Inl (ReadFailed reason) | Inr v \<Rightarrow> Inr v)"

definition from_prover :: "string + 'a \<Rightarrow> error + 'a" where
  "from_prover r = (case r of Inl reason \<Rightarrow> Inl (ProverFailed reason) | Inr v \<Rightarrow> Inr v)"

definition from_write :: "string + 'a \<Rightarrow> error + 'a" where
  "from_write r = (case r of Inl reason \<Rightarrow> Inl (ChainRejected reason) | Inr v \<Rightarrow> Inr v)"

section \<open>The collaborators of the client\<close>

text \<open>
  The contract \<^verbatim>\<open>BasicZether\<close> and the \<^verbatim>\<open>publicClient\<close> are what they answer: a
  value, or the reason of a rejection. A write answers with a transaction hash.
\<close>

record ledger =
  address :: string
  read_epochLength :: "string + int"
  read_counter :: "string \<Rightarrow> string + int"
  read_MAX :: "string + int"
  read_simulateAccounts :: "point list \<Rightarrow> int \<Rightarrow> string + account_data list"
  write_burn :: "point \<Rightarrow> int \<Rightarrow> int list \<Rightarrow> string \<Rightarrow> string + string"
  write_transfer ::
    "point \<Rightarrow> point \<Rightarrow> point \<Rightarrow> point \<Rightarrow> point \<Rightarrow> int list \<Rightarrow> string \<Rightarrow> string + string"
  write_lock :: "point \<Rightarrow> string \<Rightarrow> int \<Rightarrow> int \<Rightarrow> string \<Rightarrow> string + string"

record public_client =
  getBlockNumber :: "string + int"

text \<open>
  The helpers that \<^verbatim>\<open>Client.ts\<close> imports from \<^verbatim>\<open>./ultis\<close> are not part of the
  source tree, so they are parameters: the conversions and \<^verbatim>\<open>schnorrChallenge\<close>
  as functions of their arguments (a nonce drawn inside is part of the parameter),
  the provers and the calldata helper as calls that may reject.
  \<^verbatim>\<open>readBalanceWithOnchainData\<close> returns a \<^verbatim>\<open>number\<close> or \<^verbatim>\<open>undefined\<close>.
  \<^verbatim>\<open>getAddress\<close> of \<^verbatim>\<open>ethers\<close> returns the checksummed address or throws.
\<close>

record ultis =
  readBalanceWithOnchainData :: "account_data option \<Rightarrow> int \<Rightarrow> number option"
  calculatePublicKeyHash :: "point \<Rightarrow> string"
  convertSolidityPointToArrayString :: "point \<Rightarrow> string list"
  convertToBabyJubPoints :: "point \<Rightarrow> point"
  convertToBabyJubPointsArrayString :: "point \<Rightarrow> string list"
  formatPoint :: "point \<Rightarrow> point"
  createTransferInput :: "point \<Rightarrow> point \<Rightarrow> int \<Rightarrow> int \<Rightarrow> point \<times> point \<times> point"
  generateBurnProof :: "burn_input \<Rightarrow> string + proof_result"
  generateTransferProof :: "transfer_input \<Rightarrow> string + proof_result"
  generateCalldata :: "int list \<Rightarrow> int list \<Rightarrow> string + calldata"
  flattenProof :: "int list \<Rightarrow> int list \<Rightarrow> int list \<Rightarrow> int list"
  schnorrChallenge :: "string \<Rightarrow> string \<Rightarrow> point \<Rightarrow> int \<Rightarrow> int \<times> int"
  getAddress :: "string \<Rightarrow> string + string"

section \<open>The client\<close>

record client =
  privateKey :: int
  publicKey :: point
  client_MAX :: int

text \<open>\<^verbatim>\<open>accounts[0]\<close>: the first entry, \<^verbatim>\<open>undefined\<close> on an empty array.\<close>

definition first_of :: "'a list \<Rightarrow> 'a option" where
  "first_of xs = (case xs of [] \<Rightarrow> None | x # _ \<Rightarrow> Some x)"

text \<open>\<^verbatim>\<open>Client.stimulateAccount\<close>\<close>

definition stimulateAccount :: "ledger \<Rightarrow> public_client \<Rightarrow> client \<Rightarrow> account_data option io" where
  "stimulateAccount BasicZether publicClient this =
     bind_io (promise_all2
                (call Read_epochLength (from_read (read_epochLength BasicZether)))
                (call GetBlockNumber (from_read (getBlockNumber publicClient))))
       (\<lambda>(epochLength, blockNumber).
     bind_io (lift (bigint_div blockNumber epochLength)) (\<lambda>epoch.
     bind_io (call (Read_simulateAccounts [publicKey this] epoch)
                (from_read (read_simulateAccounts BasicZether [publicKey this] epoch)))
       (\<lambda>accounts.
     return_io (first_of accounts))))"

text \<open>
  Lines 93 to 95 of \<^verbatim>\<open>burn\<close> and 133 to 135 of \<^verbatim>\<open>transfer\<close>:
  \<^verbatim>\<open>if (!cur_b) throw new Error("Current balance is undefined")\<close>; past the test,
  \<^verbatim>\<open>cur_b\<close> is a number.
\<close>

definition require_balance :: "number option \<Rightarrow> number io" where
  "require_balance cur_b =
     (if falsy cur_b then throw (Error ''Current balance is undefined'')
      else (case cur_b of
              Some v \<Rightarrow> return_io v
            | None \<Rightarrow> throw (Error ''Current balance is undefined'')))"

text \<open>
  \<^verbatim>\<open>accountData[0]\<close> and \<^verbatim>\<open>accountData[1]\<close>: a TypeError when \<^verbatim>\<open>accountData\<close> is
  \<^verbatim>\<open>undefined\<close>.
\<close>

definition entries :: "account_data option \<Rightarrow> account_data io" where
  "entries accountData =
     (case accountData of None \<Rightarrow> throw TypeError | Some d \<Rightarrow> return_io d)"

text \<open>
  \<^verbatim>\<open>Client.burn\<close>. The amount goes to the prover as the string it is, and to the
  ledger as \<^verbatim>\<open>BigInt(amount)\<close>, which is evaluated when the arguments of the write
  are.
\<close>

definition burn ::
  "ledger \<Rightarrow> public_client \<Rightarrow> ultis \<Rightarrow> client \<Rightarrow> string \<Rightarrow> string \<Rightarrow> (string \<times> calldata) io"
where
  "burn BasicZether publicClient U this account amount =
     bind_io (stimulateAccount BasicZether publicClient this) (\<lambda>accountData.
     bind_io (call (Decode accountData (privateKey this))
                (Inr (readBalanceWithOnchainData U accountData (privateKey this)))) (\<lambda>cur_b.
     bind_io (call (Read_counter (calculatePublicKeyHash U (publicKey this)))
                (from_read (read_counter BasicZether
                   (calculatePublicKeyHash U (publicKey this))))) (\<lambda>counter.
     bind_io (require_balance cur_b) (\<lambda>cur_b.
     bind_io (entries accountData) (\<lambda>(CL, CR).
     let input = \<lparr>
           bi_y = convertSolidityPointToArrayString U (publicKey this),
           bi_sk = privateKey this,
           bi_CL = convertSolidityPointToArrayString U CL,
           bi_CR = convertSolidityPointToArrayString U CR,
           bi_b = amount,
           bi_cur_b = cur_b,
           bi_counter = counter \<rparr> in
     bind_io (call (GenerateBurnProof input) (from_prover (generateBurnProof U input)))
       (\<lambda>proof.
     bind_io (call (GenerateCalldata (proof_obj proof) (publicSignals proof))
                (from_prover (generateCalldata U (proof_obj proof) (publicSignals proof))))
       (\<lambda>calldata.
     let proofFlat = flattenProof U (pA calldata) (pB calldata) (pC calldata) in
     bind_io (lift (BigInt amount)) (\<lambda>value.
     bind_io (call (Write_burn (publicKey this) value proofFlat account)
                (from_write (write_burn BasicZether (publicKey this) value proofFlat account)))
       (\<lambda>res.
     return_io (res, calldata))))))))))"

text \<open>
  \<^verbatim>\<open>Client.transfer\<close>. \<open>r\<close> is the scalar that \<^verbatim>\<open>randomBabyJubScalar(true)\<close>
  draws. \<^verbatim>\<open>Number(amount)\<close> on line 146 is reached only after \<^verbatim>\<open>BigInt(amount)\<close>
  on line 142 has returned, so the string is an integer literal, and on an integer
  literal \<^verbatim>\<open>Number\<close> is the double nearest to the integer that \<^verbatim>\<open>BigInt\<close>
  gives: \<open>to_double value\<close>.
\<close>

definition transfer ::
  "ledger \<Rightarrow> public_client \<Rightarrow> ultis \<Rightarrow> client \<Rightarrow> string \<Rightarrow> string \<Rightarrow> point \<Rightarrow> int \<Rightarrow> string io"
where
  "transfer BasicZether publicClient U this account amount receiverPublicKey r =
     bind_io (stimulateAccount BasicZether publicClient this) (\<lambda>accountData.
     bind_io (call (Decode accountData (privateKey this))
                (Inr (readBalanceWithOnchainData U accountData (privateKey this)))) (\<lambda>cur_b.
     bind_io (call (Read_counter (calculatePublicKeyHash U (publicKey this)))
                (from_read (read_counter BasicZether
                   (calculatePublicKeyHash U (publicKey this))))) (\<lambda>counter.
     bind_io (call Read_MAX (from_read (read_MAX BasicZether))) (\<lambda>MAX'.
     bind_io (require_balance cur_b) (\<lambda>cur_b.
     bind_io (lift (BigInt amount)) (\<lambda>value.
     case createTransferInput U
            (convertToBabyJubPoints U (publicKey this))
            (convertToBabyJubPoints U receiverPublicKey) value r of
       (C_send, C_receive, D) \<Rightarrow>
     let remainAmount = js_sub cur_b (to_double value) in
     bind_io (entries accountData) (\<lambda>(CL, CR).
     let input = \<lparr>
           ti_sk = privateKey this,
           ti_r = r,
           ti_sAmount = amount,
           ti_bRem = remainAmount,
           ti_MAX = MAX',
           ti_CS = convertToBabyJubPointsArrayString U C_send,
           ti_D = convertToBabyJubPointsArrayString U D,
           ti_CRe = convertToBabyJubPointsArrayString U C_receive,
           ti_y = convertSolidityPointToArrayString U (publicKey this),
           ti_yR = convertSolidityPointToArrayString U receiverPublicKey,
           ti_CL = convertSolidityPointToArrayString U CL,
           ti_CR = convertSolidityPointToArrayString U CR,
           ti_counter = counter \<rparr> in
     bind_io (call (GenerateTransferProof input) (from_prover (generateTransferProof U input)))
       (\<lambda>proof.
     bind_io (call (GenerateCalldata (proof_obj proof) (publicSignals proof))
                (from_prover (generateCalldata U (proof_obj proof) (publicSignals proof))))
       (\<lambda>calldata.
     let proofFlat = flattenProof U (pA calldata) (pB calldata) (pC calldata) in
     call (Write_transfer (publicKey this) receiverPublicKey (formatPoint U C_send)
             (formatPoint U C_receive) (formatPoint U D) proofFlat account)
       (from_write (write_transfer BasicZether (publicKey this) receiverPublicKey
          (formatPoint U C_send) (formatPoint U C_receive) (formatPoint U D)
          proofFlat account)))))))))))"

text \<open>\<^verbatim>\<open>Client.getCurrentBalance\<close>\<close>

definition getCurrentBalance ::
  "ledger \<Rightarrow> public_client \<Rightarrow> ultis \<Rightarrow> client \<Rightarrow> number option io"
where
  "getCurrentBalance BasicZether publicClient U this =
     bind_io (stimulateAccount BasicZether publicClient this) (\<lambda>accountData.
     call (Decode accountData (privateKey this))
       (Inr (readBalanceWithOnchainData U accountData (privateKey this))))"

text \<open>
  \<^verbatim>\<open>Client.lock\<close>. The lock address is normalised once for the transaction and
  once more for the challenge.
\<close>

definition address_of :: "string + string \<Rightarrow> string io" where
  "address_of r = lift (case r of Inl reason \<Rightarrow> Inl (InvalidAddress reason) | Inr a \<Rightarrow> Inr a)"

definition lock :: "ledger \<Rightarrow> ultis \<Rightarrow> client \<Rightarrow> string \<Rightarrow> string \<Rightarrow> string io" where
  "lock BasicZether U this account lockAddress =
     (let y = publicKey this in
      bind_io (address_of (getAddress U lockAddress)) (\<lambda>lockAddress.
      bind_io (address_of (getAddress U (address BasicZether))) (\<lambda>contractAddress'.
      bind_io (address_of (getAddress U lockAddress)) (\<lambda>lockAddress'.
      case schnorrChallenge U contractAddress' lockAddress' y (privateKey this) of
        (c, s) \<Rightarrow>
      call (Write_lock (publicKey this) lockAddress c s account)
        (from_write (write_lock BasicZether (publicKey this) lockAddress c s account))))))"

section \<open>\<^verbatim>\<open>toUnitsByDecimals\<close>\<close>

text \<open>
  The amount is a string, a number or a bigint. A number is given by the string
  that its \<^verbatim>\<open>toString()\<close> yields, which is all the function makes of it.
  \<open>decimals\<close> is an integer: \<^verbatim>\<open>repeat\<close> throws a RangeError on a negative count
  (both \<^verbatim>\<open>repeat\<close> and \<^verbatim>\<open>slice\<close> truncate a fractional one).
\<close>

datatype amount = AmountString string | AmountNumber string | AmountBigint int

text \<open>
  \<^verbatim>\<open>s.split(".")\<close>: the pieces between the dots. There is at least one, so the
  destructuring of line 41 always finds \<^verbatim>\<open>intPart\<close> (the case of no piece below
  is never taken); \<^verbatim>\<open>fracPartRaw\<close> is the second piece, or the empty string.
\<close>

fun split_dot :: "string \<Rightarrow> string list" where
  "split_dot [] = [[]]"
| "split_dot (c # cs) =
     (if c = CHR ''.'' then [] # split_dot cs
      else (case split_dot cs of [] \<Rightarrow> [[c]] | p # ps \<Rightarrow> (c # p) # ps))"

function toUnitsByDecimals :: "amount \<Rightarrow> int \<Rightarrow> error + int" where
  "toUnitsByDecimals (AmountBigint a) decimals = Inr a"
| "toUnitsByDecimals (AmountNumber s) decimals = toUnitsByDecimals (AmountString s) decimals"
| "toUnitsByDecimals (AmountString amount) decimals =
     (case split_dot amount of
        [] \<Rightarrow> Inl TypeError
      | intPart # rest \<Rightarrow>
          let fracPartRaw = (case rest of [] \<Rightarrow> [] | f # _ \<Rightarrow> f) in
          if decimals < 0 then Inl RangeError
          else
            let fracPart = take (nat decimals) (fracPartRaw @ replicate (nat decimals) CHR ''0'');
                normalized = dropWhile (\<lambda>c. c = CHR ''0'') (intPart @ fracPart)
            in BigInt (if normalized = [] then ''0'' else normalized))"
  by pat_completeness auto
termination
  by (relation "measure (\<lambda>(a, d). case a of AmountNumber _ \<Rightarrow> 1 | _ \<Rightarrow> 0)") auto

section \<open>A ledger, helpers and a client to run the operations on\<close>

text \<open>
  The ledger of the tests: epoch length 20, at block 45, with a given \<open>MAX\<close>; it
  accepts every write. The helpers decode every account to the given balance.
\<close>

definition ex_ledger :: "int \<Rightarrow> ledger" where
  "ex_ledger mx = \<lparr>
     address = ''0xc0'',
     read_epochLength = Inr 20,
     read_counter = (\<lambda>_. Inr 7),
     read_MAX = Inr mx,
     read_simulateAccounts = (\<lambda>ys _. Inr (map (\<lambda>_. ((1, 2), (3, 4))) ys)),
     write_burn = (\<lambda>_ _ _ _. Inr ''0xb1''),
     write_transfer = (\<lambda>_ _ _ _ _ _ _. Inr ''0xb2''),
     write_lock = (\<lambda>_ _ _ _ _. Inr ''0xb3'') \<rparr>"

definition ex_public :: public_client where
  "ex_public = \<lparr> getBlockNumber = Inr 45 \<rparr>"

definition ex_ultis :: "number option \<Rightarrow> (string + proof_result) \<Rightarrow> ultis" where
  "ex_ultis bal pr = \<lparr>
     readBalanceWithOnchainData = (\<lambda>_ _. bal),
     calculatePublicKeyHash = (\<lambda>_. ''0xaa''),
     convertSolidityPointToArrayString = (\<lambda>_. []),
     convertToBabyJubPoints = (\<lambda>p. p),
     convertToBabyJubPointsArrayString = (\<lambda>_. []),
     formatPoint = (\<lambda>p. p),
     createTransferInput = (\<lambda>_ _ _ _. ((0, 1), (0, 1), (0, 1))),
     generateBurnProof = (\<lambda>_. pr),
     generateTransferProof = (\<lambda>_. pr),
     generateCalldata = (\<lambda>_ _. Inr \<lparr> pA = [], pB = [], pC = [] \<rparr>),
     flattenProof = (\<lambda>_ _ _. []),
     schnorrChallenge = (\<lambda>_ _ _ _. (11, 13)),
     getAddress = (\<lambda>a. Inr a) \<rparr>"

definition ex_client :: client where
  "ex_client = \<lparr> privateKey = 5, publicKey = (8, 9), client_MAX = 4294967295 \<rparr>"

section \<open>Properties\<close>

subsection \<open>Traces of composed calls\<close>

lemma fst_bind_io:
  "fst (bind_io m f) = fst m @ (case snd m of Inl e \<Rightarrow> [] | Inr x \<Rightarrow> fst (f x))"
  by (cases m) (auto simp: bind_io_def split: sum.splits prod.splits)

lemma snd_bind_io:
  "snd (bind_io m f) = (case snd m of Inl e \<Rightarrow> Inl e | Inr x \<Rightarrow> snd (f x))"
  by (cases m) (auto simp: bind_io_def split: sum.splits prod.splits)

lemma io_simps [simp]:
  "fst (call ev r) = [ev]" "snd (call ev r) = r"
  "fst (lift r) = []" "snd (lift r) = r"
  "fst (throw e) = []" "snd (throw e) = Inl e"
  "fst (return_io x) = []" "snd (return_io x) = Inr x"
  by (simp_all add: call_def lift_def throw_def return_io_def)

lemma fst_require_balance [simp]: "fst (require_balance b) = []"
  by (simp add: require_balance_def split: option.splits)

lemma snd_require_balance:
  "snd (require_balance b) =
     (if falsy b then Inl (Error ''Current balance is undefined'') else Inr (the b))"
  by (cases b) (simp_all add: require_balance_def)

lemma fst_entries [simp]: "fst (entries d) = []"
  by (simp add: entries_def split: option.splits)

lemma fst_address_of [simp]: "fst (address_of d) = []"
  by (simp add: address_of_def)

lemma stimulateAccount_reads_only:
  "list_all (\<lambda>ev. \<not> is_write ev \<and> \<not> is_prove ev \<and> \<not> is_decode ev)
     (fst (stimulateAccount BasicZether publicClient this))"
  by (simp add: stimulateAccount_def fst_bind_io snd_bind_io promise_all2_def
      split: sum.splits prod.splits)

lemmas ex_defs = ex_ledger_def ex_public_def ex_ultis_def ex_client_def

lemmas bind_defs =
  fst_bind_io snd_bind_io from_read_def from_prover_def from_write_def snd_require_balance
  entries_def address_of_def Let_def

lemmas run_defs =
  bind_defs stimulateAccount_def promise_all2_def bigint_div_def first_of_def

lemma ex_stimulateAccount:
  "stimulateAccount (ex_ledger mx) ex_public ex_client =
     ([Read_epochLength, GetBlockNumber, Read_simulateAccounts [(8, 9)] 2],
      Inr (Some ((1, 2), (3, 4))))"
  by (simp add: prod_eq_iff run_defs ex_defs)

subsection \<open>Strings of digits\<close>

lemma dec_digit_char:
  assumes "digit_of c < 10"
  shows "\<not> is_ws c" and "c \<noteq> CHR ''.''" and "c \<noteq> CHR ''-''" and "c \<noteq> CHR ''+''"
  using assms by (auto simp: digit_of_def is_ws_def Let_def split: if_splits)

lemma digit_of_zero [simp]: "digit_of CHR ''0'' = 0"
  by (simp add: digit_of_def)

lemma split_dot_nonempty: "split_dot s \<noteq> []"
  by (induction s) (auto split: list.splits)

lemma split_dot_digits:
  "list_all (\<lambda>c. digit_of c < 10) ip \<Longrightarrow> split_dot (ip @ rest) =
     (ip @ hd (split_dot rest)) # tl (split_dot rest)"
proof (induction ip)
  case Nil
  then show ?case using split_dot_nonempty [of rest] by simp
next
  case (Cons c ip)
  then show ?case by (simp add: dec_digit_char)
qed

lemma split_dot_int: "list_all (\<lambda>c. digit_of c < 10) ip \<Longrightarrow> split_dot ip = [ip]"
  using split_dot_digits [of ip "[]"] by simp

lemma split_dot_int_frac:
  "list_all (\<lambda>c. digit_of c < 10) ip \<Longrightarrow> list_all (\<lambda>c. digit_of c < 10) fp \<Longrightarrow>
   split_dot (ip @ CHR ''.'' # fp) = [ip, fp]"
  using split_dot_digits [of ip "CHR ''.'' # fp"] split_dot_int [of fp] by simp

lemma foldl_digits_zeros:
  "foldl (\<lambda>acc c. acc * b + digit_of c) a (replicate n CHR ''0'') = a * b ^ n"
  by (induction n arbitrary: a) (simp_all add: mult.assoc)

lemma digits_value_append_zeros:
  "digits_value b (xs @ replicate n CHR ''0'') = digits_value b xs * b ^ n"
  by (simp add: digits_value_def foldl_digits_zeros)

lemma digits_value_drop_zeros:
  "digits_value b (dropWhile (\<lambda>c. c = CHR ''0'') s) = digits_value b s"
  by (induction s) (simp_all add: digits_value_def)

lemma trim_id:
  assumes "list_all (\<lambda>c. \<not> is_ws c) s"
  shows "trim s = s"
proof -
  have "dropWhile is_ws t = t" if "list_all (\<lambda>c. \<not> is_ws c) t" for t
    using that by (cases t) simp_all
  from this [of s] this [of "rev s"] assms show ?thesis
    by (simp add: trim_def list_all_iff)
qed

lemma BigInt_digits:
  assumes "s \<noteq> []" and "list_all (\<lambda>c. digit_of c < 10) s"
  shows "BigInt s = Inr (int (digits_value 10 s))"
proof -
  have "list_all (\<lambda>c. \<not> is_ws c) s"
    using assms(2) dec_digit_char(1) by (auto simp: list_all_iff)
  then have "trim s = s" by (rule trim_id)
  with assms show ?thesis
    by (simp add: BigInt_def StringToBigInt_def is_digits_def)
qed

lemma BigInt_minus_digits:
  assumes "s \<noteq> []" and "list_all (\<lambda>c. digit_of c < 10) s"
  shows "BigInt (CHR ''-'' # s) = Inr (- int (digits_value 10 s))"
proof -
  have "\<not> is_ws CHR ''-''" by (simp add: is_ws_def)
  then have "list_all (\<lambda>c. \<not> is_ws c) (CHR ''-'' # s)"
    using assms(2) dec_digit_char(1) by (auto simp: list_all_iff)
  then have "trim (CHR ''-'' # s) = CHR ''-'' # s" by (rule trim_id)
  moreover have "\<not> digit_of CHR ''-'' < 10" by (simp add: digit_of_def)
  ultimately show ?thesis
    using assms by (simp add: BigInt_def StringToBigInt_def is_digits_def)
qed

lemma BigInt_normalized:
  assumes "list_all (\<lambda>c. digit_of c < 10) s"
  shows "BigInt (if dropWhile (\<lambda>c. c = CHR ''0'') s = [] then ''0''
                 else dropWhile (\<lambda>c. c = CHR ''0'') s) = Inr (int (digits_value 10 s))"
proof (cases "dropWhile (\<lambda>c. c = CHR ''0'') s = []")
  case True
  have "digits_value 10 s = digits_value 10 (dropWhile (\<lambda>c. c = CHR ''0'') s)"
    by (simp only: digits_value_drop_zeros)
  also have "\<dots> = 0"
    by (simp only: True) (simp add: digits_value_def)
  finally have "digits_value 10 s = 0" .
  moreover have "BigInt ''0'' = Inr 0"
    using BigInt_digits [of "''0''"] by (simp add: digits_value_def)
  ultimately show ?thesis by (simp only: True if_True) simp
next
  case False
  have "set (dropWhile (\<lambda>c. c = CHR ''0'') s) \<subseteq> set s"
    by (rule set_dropWhileD [THEN subsetI])
  with assms have "list_all (\<lambda>c. digit_of c < 10) (dropWhile (\<lambda>c. c = CHR ''0'') s)"
    by (auto simp: list_all_iff)
  with False have "BigInt (dropWhile (\<lambda>c. c = CHR ''0'') s) =
      Inr (int (digits_value 10 (dropWhile (\<lambda>c. c = CHR ''0'') s)))"
    by (rule BigInt_digits)
  then show ?thesis
    by (simp only: False if_False digits_value_drop_zeros)
qed

lemma toUnits_string_digits:
  assumes "list_all (\<lambda>c. digit_of c < 10) ip" and "list_all (\<lambda>c. digit_of c < 10) fp"
    and "0 \<le> decimals"
  shows "toUnitsByDecimals (AmountString (ip @ CHR ''.'' # fp)) decimals =
           Inr (int (digits_value 10
             (ip @ take (nat decimals) (fp @ replicate (nat decimals) CHR ''0''))))"
proof -
  have "list_all (\<lambda>c. digit_of c < 10)
          (ip @ take (nat decimals) (fp @ replicate (nat decimals) CHR ''0''))"
    using assms(1,2) by (auto simp: list_all_iff dest: in_set_takeD)
  note norm = BigInt_normalized [OF this]
  have nneg: "(decimals < 0) = False" using assms(3) by simp
  show ?thesis
    by (simp only: toUnitsByDecimals.simps split_dot_int_frac [OF assms(1,2)]
        list.case Let_def nneg if_False norm)
qed

lemma toUnits_int_string:
  assumes "list_all (\<lambda>c. digit_of c < 10) ip" and "0 \<le> decimals"
  shows "toUnitsByDecimals (AmountString ip) decimals =
           Inr (int (digits_value 10 ip) * 10 ^ nat decimals)"
proof -
  have "list_all (\<lambda>c. digit_of c < 10) (ip @ replicate (nat decimals) CHR ''0'')"
    using assms(1) by (auto simp: list_all_iff)
  note norm = BigInt_normalized [OF this]
  have nneg: "(decimals < 0) = False" using assms(2) by simp
  have pad: "take (nat decimals) ([] @ replicate (nat decimals) CHR ''0'') =
      replicate (nat decimals) CHR ''0''" by simp
  show ?thesis
    by (simp only: toUnitsByDecimals.simps split_dot_int [OF assms(1)]
        list.case Let_def nneg if_False pad norm digits_value_append_zeros)
      simp
qed

lemma toUnits_negative_string:
  assumes "ds \<noteq> []" and "list_all (\<lambda>c. digit_of c < 10) ds" and "0 \<le> decimals"
  shows "toUnitsByDecimals (AmountString (CHR ''-'' # ds)) decimals =
           Inr (- (int (digits_value 10 ds) * 10 ^ nat decimals))"
proof -
  have "split_dot (CHR ''-'' # ds) = [CHR ''-'' # ds]"
    using assms(2) by (simp add: split_dot_int)
  moreover have "list_all (\<lambda>c. digit_of c < 10) (ds @ replicate (nat decimals) CHR ''0'')"
    using assms(2) by (auto simp: list_all_iff)
  ultimately show ?thesis
    using assms BigInt_minus_digits [of "ds @ replicate (nat decimals) CHR ''0''"]
    by (simp add: Let_def digits_value_append_zeros del: dropWhile_eq_Nil_conv)
qed

lemma foldl_digits_shift:
  "foldl (\<lambda>acc c. acc * b + digit_of c) a ys =
     a * b ^ length ys + foldl (\<lambda>acc c. acc * b + digit_of c) 0 ys"
proof (induction ys arbitrary: a)
  case Nil
  then show ?case by simp
next
  case (Cons c ys)
  show ?case
    using Cons.IH [of "a * b + digit_of c"] Cons.IH [of "digit_of c"]
    by (simp add: algebra_simps)
qed

lemma digits_value_append:
  "digits_value b (xs @ ys) = digits_value b xs * b ^ length ys + digits_value b ys"
  using foldl_digits_shift [of b "digits_value b xs" ys]
  by (simp add: digits_value_def)

lemma digits_value_less:
  "list_all (\<lambda>c. digit_of c < b) ys \<Longrightarrow> digits_value b ys < b ^ length ys"
proof (induction ys rule: rev_induct)
  case Nil
  then show ?case by (simp add: digits_value_def)
next
  case (snoc c ys)
  then have v: "digits_value b ys < b ^ length ys" and d: "digit_of c < b"
    by simp_all
  from v have "(digits_value b ys + 1) * b \<le> b ^ length ys * b"
    by (intro mult_le_mono1) simp
  with d have "digits_value b ys * b + digit_of c < b ^ length ys * b"
    by (simp add: algebra_simps)
  moreover have "digits_value b (ys @ [c]) = digits_value b ys * b + digit_of c"
    by (simp add: digits_value_def)
  ultimately show ?case by (simp add: mult.commute)
qed

lemma digits_value_take_padded:
  assumes "list_all (\<lambda>c. digit_of c < 10) fp"
  shows "digits_value 10 (take d (fp @ replicate d CHR ''0'')) =
           digits_value 10 fp * 10 ^ d div 10 ^ length fp"
proof (cases "length fp \<le> d")
  case True
  then have "take d (fp @ replicate d CHR ''0'') = fp @ replicate (d - length fp) CHR ''0''"
    by simp
  then have "digits_value 10 (take d (fp @ replicate d CHR ''0'')) =
      digits_value 10 fp * 10 ^ (d - length fp)"
    by (simp only: digits_value_append_zeros)
  moreover have "(10::nat) ^ d = 10 ^ (d - length fp) * 10 ^ length fp"
    using True by (simp flip: power_add)
  ultimately show ?thesis
    by (simp add: mult.assoc [symmetric])
next
  case False
  then have len: "length (drop d fp) = length fp - d" and t: "take d (fp @ replicate d CHR ''0'') = take d fp"
    by simp_all
  have "list_all (\<lambda>c. digit_of c < 10) (drop d fp)"
    using assms by (auto simp: list_all_iff dest: in_set_dropD)
  then have small: "digits_value 10 (drop d fp) < 10 ^ (length fp - d)"
    using digits_value_less [of 10 "drop d fp"] by (simp add: len)
  have "digits_value 10 fp = digits_value 10 (take d fp @ drop d fp)"
    by simp
  also have "\<dots> = digits_value 10 (take d fp) * 10 ^ (length fp - d) + digits_value 10 (drop d fp)"
    by (simp only: digits_value_append len)
  finally have v: "digits_value 10 fp =
      digits_value 10 (take d fp) * 10 ^ (length fp - d) + digits_value 10 (drop d fp)" .
  have p: "(10::nat) ^ length fp = 10 ^ d * 10 ^ (length fp - d)"
    using False by (simp flip: power_add)
  have "digits_value 10 fp * 10 ^ d div 10 ^ length fp =
      digits_value 10 fp div 10 ^ (length fp - d)"
    by (simp only: p) (simp add: mult.commute)
  also have "\<dots> = digits_value 10 (take d fp)"
    using small by (simp add: v)
  finally show ?thesis by (simp only: t)
qed

subsection \<open>Rounding to a double\<close>

lemma bit_len_example: "bit_len 9007199254740993 = 54" "bit_len 9007199254740992 = 54"
  by (simp_all add: bit_len.simps)

lemma round_nat_example:
  "round_nat 9007199254740993 = 9007199254740992"
  "round_nat 9007199254740992 = 9007199254740992"
  unfolding round_nat_def Let_def bit_len_example by simp_all

lemma to_double_example: "to_double 9007199254740993 = Finite 9007199254740992"
  by (simp add: to_double_def round_nat_example Let_def)

lemma to_double_exact:
  assumes "\<bar>n\<bar> \<le> 2 ^ 53"
  shows "to_double n = Finite n"
proof -
  have r: "round_nat (nat \<bar>n\<bar>) = nat \<bar>n\<bar>"
  proof (cases "\<bar>n\<bar> = 2 ^ 53")
    case True
    then show ?thesis by (simp add: round_nat_example)
  next
    case False
    with assms have "nat \<bar>n\<bar> < 2 ^ 53" by simp
    then show ?thesis by (simp add: round_nat_def)
  qed
  have "nat \<bar>n\<bar> < 2 ^ 1024"
    using assms by simp
  moreover have "sgn n * int (nat \<bar>n\<bar>) = n"
    by (simp add: sgn_if)
  ultimately show ?thesis
    by (simp add: to_double_def r Let_def)
qed

lemma StringToBigInt_example: "StringToBigInt ''9007199254740993'' = Some 9007199254740993"
  by (simp add: StringToBigInt_def trim_def is_ws_def is_digits_def digit_of_def digits_value_def)

subsection \<open>The epoch\<close>

lemma bigint_div_floor:
  assumes "0 \<le> a" and "0 < b"
  shows "bigint_div a b = Inr \<lfloor>real_of_int a / real_of_int b\<rfloor>"
proof -
  have "sgn a * sgn b * (\<bar>a\<bar> div \<bar>b\<bar>) = a div b"
  proof (cases "a = 0")
    case True
    then show ?thesis by simp
  next
    case False
    with assms have "sgn a = 1" and "sgn b = 1" by simp_all
    with assms show ?thesis by simp
  qed
  moreover have "\<lfloor>real_of_int a / real_of_int b\<rfloor> = a div b"
    by (simp add: floor_divide_of_int_eq)
  ultimately show ?thesis
    using assms by (simp add: bigint_div_def)
qed

text \<open>
  C4. For every block height \<open>blockNumber\<close> (a bigint that is not negative) and
  every positive \<open>epochLength\<close> that the two reads return, the epoch that \<open>stimulateAccount\<close> passes to the ledger's
  \<^verbatim>\<open>simulateAccounts\<close> is \<open>floor (blockNumber / epochLength)\<close>: after the two reads,
  the one further call is that read, for the client's public key and that epoch.
\<close>

theorem stimulateAccount_epoch:
  assumes "read_epochLength BasicZether = Inr epochLength"
    and "getBlockNumber publicClient = Inr blockNumber"
    and "0 < epochLength" and "0 \<le> blockNumber"
  shows "fst (stimulateAccount BasicZether publicClient this) =
           [Read_epochLength, GetBlockNumber,
            Read_simulateAccounts [publicKey this]
              \<lfloor>real_of_int blockNumber / real_of_int epochLength\<rfloor>]"
  using assms
  by (simp add: stimulateAccount_def promise_all2_def call_def bind_io_def lift_def
      from_read_def return_io_def bigint_div_floor split: sum.splits prod.splits)

theorem stimulateAccount_epoch_witness:
  "(0::int) < 20 \<and> (0::int) \<le> 45 \<and>
   fst (stimulateAccount (ex_ledger 10) ex_public ex_client) =
     [Read_epochLength, GetBlockNumber, Read_simulateAccounts [(8, 9)] 2]"
  using stimulateAccount_epoch [of "ex_ledger 10" 20 ex_public 45 ex_client]
  by (simp add: ex_defs)

subsection \<open>The amount in \<^verbatim>\<open>burn\<close> and \<^verbatim>\<open>transfer\<close>\<close>

text \<open>
  C1, as stated, fails. A burn of 5 from an account whose decoded balance is 3:
  the client reads the epoch length, the block number, the account and the
  counter, builds the witness with \<open>b = 5\<close> and \<open>cur_b = 3\<close> and hands it to the
  prover; the failure is the prover's, after four network calls.
\<close>

theorem burn_invalid_amount_counterexample:
  "burn (ex_ledger 10) ex_public (ex_ultis (Some (Finite 3)) (Inl ''WitnessInvalid''))
     ex_client ''0xacc'' ''5'' =
   ([Read_epochLength, GetBlockNumber, Read_simulateAccounts [(8, 9)] 2,
     Decode (Some ((1, 2), (3, 4))) 5, Read_counter ''0xaa'',
     GenerateBurnProof \<lparr>bi_y = [], bi_sk = 5, bi_CL = [], bi_CR = [], bi_b = ''5'',
       bi_cur_b = Finite 3, bi_counter = 7\<rparr>],
    Inl (ProverFailed ''WitnessInvalid''))
   \<and> filter is_network
       (fst (burn (ex_ledger 10) ex_public (ex_ultis (Some (Finite 3)) (Inl ''WitnessInvalid''))
          ex_client ''0xacc'' ''5'')) =
     [Read_epochLength, GetBlockNumber, Read_simulateAccounts [(8, 9)] 2, Read_counter ''0xaa'']"
  by (simp add: prod_eq_iff burn_def run_defs ex_defs)

text \<open>
  C1, amended. \<^verbatim>\<open>burn\<close> and \<^verbatim>\<open>transfer\<close> make no check of the amount
  themselves, against 0, \<open>MAX\<close> or the balance. Whenever
  the account simulation and the counter read return and the decoded balance is a
  number other than zero, \<^verbatim>\<open>burn\<close> hands the amount string as it is, with that
  balance, to the burn prover, whatever the amount; and \<^verbatim>\<open>transfer\<close>, when the
  \<open>MAX\<close> read returns and the amount is an integer literal, of any sign and size,
  hands it to the transfer prover with \<open>bRem = cur_b - Number(amount)\<close>. The
  prover is called after the ledger reads have been issued.
\<close>

theorem amount_is_not_checked:
  assumes "snd (stimulateAccount BasicZether publicClient this) = Inr (Some (CL, CR))"
    and "readBalanceWithOnchainData U (Some (CL, CR)) (privateKey this) = Some cur_b"
    and "\<not> falsy (Some cur_b)"
    and "read_counter BasicZether (calculatePublicKeyHash U (publicKey this)) = Inr counter"
  shows "(\<exists>w rest. fst (burn BasicZether publicClient U this account amount) =
            fst (stimulateAccount BasicZether publicClient this) @
            [Decode (Some (CL, CR)) (privateKey this),
             Read_counter (calculatePublicKeyHash U (publicKey this)),
             GenerateBurnProof w] @ rest
            \<and> bi_b w = amount \<and> bi_cur_b w = cur_b)
       \<and> (read_MAX BasicZether = Inr mx \<and> StringToBigInt amount = Some v \<longrightarrow>
            (\<exists>w rest.
               fst (transfer BasicZether publicClient U this account amount receiverPublicKey r) =
               fst (stimulateAccount BasicZether publicClient this) @
               [Decode (Some (CL, CR)) (privateKey this),
                Read_counter (calculatePublicKeyHash U (publicKey this)),
                Read_MAX, GenerateTransferProof w] @ rest
               \<and> ti_sAmount w = amount \<and> ti_bRem w = js_sub cur_b (to_double v)
               \<and> ti_MAX w = mx))"
  using assms
  by (simp add: burn_def transfer_def bind_defs BigInt_def split: prod.splits)

theorem amount_is_not_checked_witness:
  "snd (stimulateAccount (ex_ledger 10) ex_public ex_client) = Inr (Some ((1, 2), (3, 4)))
   \<and> readBalanceWithOnchainData (ex_ultis (Some (Finite 3)) (Inl ''WitnessInvalid''))
        (Some ((1, 2), (3, 4))) (privateKey ex_client) = Some (Finite 3)
   \<and> \<not> falsy (Some (Finite 3))
   \<and> read_counter (ex_ledger 10)
        (calculatePublicKeyHash (ex_ultis (Some (Finite 3)) (Inl ''WitnessInvalid''))
           (publicKey ex_client)) = Inr 7
   \<and> read_MAX (ex_ledger 10) = Inr 10 \<and> StringToBigInt ''11'' = Some 11
   \<and> (\<exists>w rest.
         fst (burn (ex_ledger 10) ex_public (ex_ultis (Some (Finite 3)) (Inl ''WitnessInvalid''))
                ex_client ''0xacc'' ''11'') =
         [Read_epochLength, GetBlockNumber, Read_simulateAccounts [(8, 9)] 2,
          Decode (Some ((1, 2), (3, 4))) 5, Read_counter ''0xaa'', GenerateBurnProof w] @ rest
         \<and> bi_b w = ''11'' \<and> bi_cur_b w = Finite 3)
   \<and> (\<exists>w rest.
         fst (transfer (ex_ledger 10) ex_public
                (ex_ultis (Some (Finite 3)) (Inl ''WitnessInvalid''))
                ex_client ''0xacc'' ''11'' (6, 7) 77) =
         [Read_epochLength, GetBlockNumber, Read_simulateAccounts [(8, 9)] 2,
          Decode (Some ((1, 2), (3, 4))) 5, Read_counter ''0xaa'', Read_MAX,
          GenerateTransferProof w] @ rest
         \<and> ti_sAmount w = ''11'' \<and> ti_bRem w = Finite (- 8) \<and> ti_MAX w = 10)"
proof -
  let ?U = "ex_ultis (Some (Finite 3)) (Inl ''WitnessInvalid'')"
  have h1: "snd (stimulateAccount (ex_ledger 10) ex_public ex_client) =
      Inr (Some ((1, 2), (3, 4)))"
    by (simp add: ex_stimulateAccount)
  have h2: "readBalanceWithOnchainData ?U (Some ((1, 2), (3, 4))) (privateKey ex_client) =
      Some (Finite 3)"
    by (simp add: ex_defs)
  have h3: "\<not> falsy (Some (Finite 3))"
    by simp
  have h4: "read_counter (ex_ledger 10) (calculatePublicKeyHash ?U (publicKey ex_client)) =
      Inr 7"
    by (simp add: ex_defs)
  have h5: "read_MAX (ex_ledger 10) = Inr 10"
    by (simp add: ex_defs)
  have h6: "StringToBigInt ''11'' = Some 11"
    by (simp add: StringToBigInt_def trim_def is_ws_def is_digits_def digit_of_def
        digits_value_def)
  have sub: "js_sub (Finite 3) (to_double 11) = Finite (- 8)"
    by (simp add: to_double_exact)
  have pk: "calculatePublicKeyHash ?U (publicKey ex_client) = ''0xaa''"
    and sk: "privateKey ex_client = 5"
    by (simp_all add: ex_defs)
  from amount_is_not_checked [OF h1 h2 h3 h4, where account = "''0xacc''" and amount = "''11''"
      and mx = 10 and v = 11 and receiverPublicKey = "(6, 7)" and r = 77]
    h1 h2 h3 h4 h5 h6
  show ?thesis
    by (simp only: ex_stimulateAccount fst_conv sub pk sk append_Cons append_Nil) simp
qed

text \<open>
  C2, as stated, fails: the subtraction is one of doubles. On a ledger whose
  \<open>MAX\<close> is \<open>2 ^ 64 - 1\<close>, with the balance \<open>2 ^ 53 + 2\<close> and the amount
  \<open>2 ^ 53 + 1\<close>, \<^verbatim>\<open>Number(amount)\<close> is \<open>2 ^ 53\<close> and the witness carries
  \<open>bRem = 2\<close>, where the difference is 1.
\<close>

theorem transfer_rounding_counterexample:
  "transfer (ex_ledger 18446744073709551615) ex_public
     (ex_ultis (Some (Finite 9007199254740994)) (Inl ''WitnessInvalid''))
     ex_client ''0xacc'' ''9007199254740993'' (6, 7) 77 =
   ([Read_epochLength, GetBlockNumber, Read_simulateAccounts [(8, 9)] 2,
     Decode (Some ((1, 2), (3, 4))) 5, Read_counter ''0xaa'', Read_MAX,
     GenerateTransferProof \<lparr>ti_sk = 5, ti_r = 77, ti_sAmount = ''9007199254740993'',
       ti_bRem = Finite 2, ti_MAX = 18446744073709551615, ti_CS = [], ti_D = [],
       ti_CRe = [], ti_y = [], ti_yR = [], ti_CL = [], ti_CR = [], ti_counter = 7\<rparr>],
    Inl (ProverFailed ''WitnessInvalid''))"
proof -
  have "js_sub (Finite 9007199254740994) (to_double 9007199254740993) = Finite 2"
    by (simp add: to_double_example to_double_exact)
  then show ?thesis
    by (simp add: prod_eq_iff transfer_def run_defs ex_defs BigInt_def StringToBigInt_example)
qed

text \<open>
  C2, amended. The remaining balance is the double \<open>cur_b - Number(amount)\<close>. In
  every run of \<^verbatim>\<open>transfer\<close> that hands a witness to the prover, with the decoded
  balance \<open>cur_b\<close> and the amount \<open>v\<close> both in \<open>[0, MAX]\<close> and \<open>MAX\<close> at most
  \<open>2 ^ 53\<close> (as it is for \<open>MAX = 2 ^ 32 - 1\<close>), \<open>bRem\<close> is the integer
  \<open>cur_b - v\<close>, exactly; it is negative when the amount exceeds the balance.
\<close>

theorem transfer_remaining_balance:
  assumes "GenerateTransferProof w \<in>
      set (fst (transfer BasicZether publicClient U this account amount receiverPublicKey r))"
    and "snd (stimulateAccount BasicZether publicClient this) = Inr accountData"
    and "readBalanceWithOnchainData U accountData (privateKey this) = Some (Finite cur_b)"
    and "StringToBigInt amount = Some v"
    and "read_MAX BasicZether = Inr mx"
    and "0 \<le> v" and "v \<le> mx" and "0 \<le> cur_b" and "cur_b \<le> mx" and "mx \<le> 2 ^ 53"
  shows "ti_bRem w = Finite (cur_b - v)"
proof -
  have "\<bar>v\<bar> \<le> 2 ^ 53" and "\<bar>cur_b - v\<bar> \<le> 2 ^ 53"
    using assms(6-10) by simp_all
  then have sub: "js_sub (Finite cur_b) (to_double v) = Finite (cur_b - v)"
    by (simp add: to_double_exact)
  have "list_all (\<lambda>ev. \<not> is_write ev \<and> \<not> is_prove ev \<and> \<not> is_decode ev)
      (fst (stimulateAccount BasicZether publicClient this))"
    by (rule stimulateAccount_reads_only)
  then have "GenerateTransferProof w \<notin> set (fst (stimulateAccount BasicZether publicClient this))"
    by (auto simp: list_all_iff)
  with assms(1-5) sub show ?thesis
    by (auto simp add: transfer_def bind_defs BigInt_def case_prod_beta
        split: sum.splits if_splits option.splits)
qed

theorem transfer_remaining_balance_witness:
  "GenerateTransferProof \<lparr>ti_sk = 5, ti_r = 77, ti_sAmount = ''11'',
       ti_bRem = Finite 19989, ti_MAX = 4294967295, ti_CS = [], ti_D = [],
       ti_CRe = [], ti_y = [], ti_yR = [], ti_CL = [], ti_CR = [], ti_counter = 7\<rparr>
     \<in> set (fst (transfer (ex_ledger 4294967295) ex_public
                (ex_ultis (Some (Finite 20000)) (Inl ''BackendUnavailable''))
                ex_client ''0xacc'' ''11'' (6, 7) 77))
   \<and> snd (stimulateAccount (ex_ledger 4294967295) ex_public ex_client) =
       Inr (Some ((1, 2), (3, 4)))
   \<and> readBalanceWithOnchainData (ex_ultis (Some (Finite 20000)) (Inl ''BackendUnavailable''))
        (Some ((1, 2), (3, 4))) (privateKey ex_client) = Some (Finite 20000)
   \<and> StringToBigInt ''11'' = Some 11
   \<and> read_MAX (ex_ledger 4294967295) = Inr 4294967295
   \<and> (0::int) \<le> 11 \<and> (11::int) \<le> 4294967295 \<and> (0::int) \<le> 20000
   \<and> (20000::int) \<le> 4294967295 \<and> (4294967295::int) \<le> 2 ^ 53
   \<and> ti_bRem \<lparr>ti_sk = 5, ti_r = 77, ti_sAmount = ''11'',
       ti_bRem = Finite 19989, ti_MAX = 4294967295, ti_CS = [], ti_D = [],
       ti_CRe = [], ti_y = [], ti_yR = [], ti_CL = [], ti_CR = [], ti_counter = 7\<rparr> =
      Finite (20000 - 11)"
proof -
  let ?U = "ex_ultis (Some (Finite 20000)) (Inl ''BackendUnavailable'')"
  let ?w = "\<lparr>ti_sk = 5, ti_r = 77, ti_sAmount = ''11'',
       ti_bRem = Finite 19989, ti_MAX = 4294967295, ti_CS = [], ti_D = [],
       ti_CRe = [], ti_y = [], ti_yR = [], ti_CL = [], ti_CR = [], ti_counter = 7\<rparr>"
  have h4: "StringToBigInt ''11'' = Some 11"
    by (simp add: StringToBigInt_def trim_def is_ws_def is_digits_def digit_of_def
        digits_value_def)
  have sub: "js_sub (Finite 20000) (to_double 11) = Finite 19989"
    by (simp add: to_double_exact)
  have h1: "GenerateTransferProof ?w \<in>
      set (fst (transfer (ex_ledger 4294967295) ex_public ?U ex_client ''0xacc'' ''11''
                  (6, 7) 77))"
    using sub by (simp add: transfer_def run_defs ex_defs BigInt_def h4)
  have h2: "snd (stimulateAccount (ex_ledger 4294967295) ex_public ex_client) =
      Inr (Some ((1, 2), (3, 4)))"
    by (simp add: ex_stimulateAccount)
  have h3: "readBalanceWithOnchainData ?U (Some ((1, 2), (3, 4))) (privateKey ex_client) =
      Some (Finite 20000)"
    by (simp add: ex_defs)
  have h5: "read_MAX (ex_ledger 4294967295) = Inr 4294967295"
    by (simp add: ex_defs)
  from transfer_remaining_balance [OF h1 h2 h3 h4 h5] h1 h2 h3 h4 h5
  show ?thesis by simp
qed

subsection \<open>A balance that does not decode, or is zero\<close>

text \<open>
  C3. When the account simulation returns and the decode of the account finds no
  balance (\<^verbatim>\<open>undefined\<close>), \<^verbatim>\<open>burn\<close> and \<^verbatim>\<open>transfer\<close> both end in an error; the
  decode was called once, and no prover and no ledger write was called.
\<close>

theorem undecodable_is_fatal:
  assumes "snd (stimulateAccount BasicZether publicClient this) = Inr accountData"
    and "readBalanceWithOnchainData U accountData (privateKey this) = None"
  shows "isl (snd (burn BasicZether publicClient U this account amount))
       \<and> length (filter is_decode (fst (burn BasicZether publicClient U this account amount))) = 1
       \<and> list_all (\<lambda>ev. \<not> is_prove ev \<and> \<not> is_write ev)
           (fst (burn BasicZether publicClient U this account amount))
       \<and> isl (snd (transfer BasicZether publicClient U this account amount receiverPublicKey r))
       \<and> length (filter is_decode
           (fst (transfer BasicZether publicClient U this account amount receiverPublicKey r))) = 1
       \<and> list_all (\<lambda>ev. \<not> is_prove ev \<and> \<not> is_write ev)
           (fst (transfer BasicZether publicClient U this account amount receiverPublicKey r))"
proof -
  let ?pre = "fst (stimulateAccount BasicZether publicClient this)"
  have pre: "list_all (\<lambda>ev. \<not> is_write ev \<and> \<not> is_prove ev \<and> \<not> is_decode ev) ?pre"
    by (rule stimulateAccount_reads_only)
  then have nodec: "filter is_decode ?pre = []"
    by (simp add: list_all_iff filter_empty_conv)
  have pre': "list_all (\<lambda>ev. \<not> is_prove ev \<and> \<not> is_write ev) ?pre"
    using pre by (simp add: list_all_iff)
  show ?thesis
    using assms nodec pre'
    by (simp add: burn_def transfer_def fst_bind_io snd_bind_io snd_require_balance
        split: sum.splits)
qed

theorem undecodable_is_fatal_witness:
  "snd (stimulateAccount (ex_ledger 10) ex_public ex_client) = Inr (Some ((1, 2), (3, 4)))
   \<and> readBalanceWithOnchainData (ex_ultis None (Inl ''unused''))
        (Some ((1, 2), (3, 4))) (privateKey ex_client) = None
   \<and> isl (snd (burn (ex_ledger 10) ex_public (ex_ultis None (Inl ''unused'')) ex_client
        ''0xacc'' ''5''))
   \<and> length (filter is_decode
        (fst (burn (ex_ledger 10) ex_public (ex_ultis None (Inl ''unused'')) ex_client
           ''0xacc'' ''5''))) = 1
   \<and> list_all (\<lambda>ev. \<not> is_prove ev \<and> \<not> is_write ev)
        (fst (burn (ex_ledger 10) ex_public (ex_ultis None (Inl ''unused'')) ex_client
           ''0xacc'' ''5''))
   \<and> isl (snd (transfer (ex_ledger 10) ex_public (ex_ultis None (Inl ''unused'')) ex_client
        ''0xacc'' ''5'' (6, 7) 77))
   \<and> length (filter is_decode
        (fst (transfer (ex_ledger 10) ex_public (ex_ultis None (Inl ''unused'')) ex_client
           ''0xacc'' ''5'' (6, 7) 77))) = 1
   \<and> list_all (\<lambda>ev. \<not> is_prove ev \<and> \<not> is_write ev)
        (fst (transfer (ex_ledger 10) ex_public (ex_ultis None (Inl ''unused'')) ex_client
           ''0xacc'' ''5'' (6, 7) 77))"
proof -
  have h1: "snd (stimulateAccount (ex_ledger 10) ex_public ex_client) =
      Inr (Some ((1, 2), (3, 4)))"
    by (simp add: ex_stimulateAccount)
  have h2: "readBalanceWithOnchainData (ex_ultis None (Inl ''unused''))
        (Some ((1, 2), (3, 4))) (privateKey ex_client) = None"
    by (simp add: ex_defs)
  from undecodable_is_fatal [OF h1 h2, where account = "''0xacc''" and amount = "''5''"
      and receiverPublicKey = "(6, 7)" and r = 77] h1 h2
  show ?thesis by blast
qed

text \<open>
  C8. When the account simulation returns and the decode of the account gives
  the balance 0, neither \<^verbatim>\<open>burn\<close> nor \<^verbatim>\<open>transfer\<close> calls a prover, whatever the
  amount, and the error thrown is \<open>Current balance is undefined\<close>: by \<^verbatim>\<open>burn\<close>
  once the counter read has returned, by \<^verbatim>\<open>transfer\<close> once the counter and the
  \<open>MAX\<close> read have returned (the test comes after these reads).
\<close>

theorem zero_balance_is_undefined:
  assumes "snd (stimulateAccount BasicZether publicClient this) = Inr accountData"
    and "readBalanceWithOnchainData U accountData (privateKey this) = Some (Finite 0)"
  shows "list_all (\<lambda>ev. \<not> is_prove ev)
           (fst (burn BasicZether publicClient U this account amount))
       \<and> (read_counter BasicZether (calculatePublicKeyHash U (publicKey this)) = Inr counter \<longrightarrow>
            snd (burn BasicZether publicClient U this account amount) =
              Inl (Error ''Current balance is undefined''))
       \<and> list_all (\<lambda>ev. \<not> is_prove ev)
           (fst (transfer BasicZether publicClient U this account amount receiverPublicKey r))
       \<and> (read_counter BasicZether (calculatePublicKeyHash U (publicKey this)) = Inr counter \<and>
            read_MAX BasicZether = Inr mx \<longrightarrow>
            snd (transfer BasicZether publicClient U this account amount receiverPublicKey r) =
              Inl (Error ''Current balance is undefined''))"
proof -
  let ?pre = "fst (stimulateAccount BasicZether publicClient this)"
  have "list_all (\<lambda>ev. \<not> is_write ev \<and> \<not> is_prove ev \<and> \<not> is_decode ev) ?pre"
    by (rule stimulateAccount_reads_only)
  then have pre: "list_all (\<lambda>ev. \<not> is_prove ev) ?pre"
    by (simp add: list_all_iff)
  show ?thesis
    using assms pre
    by (simp add: burn_def transfer_def fst_bind_io snd_bind_io snd_require_balance
        from_read_def split: sum.splits)
qed

theorem zero_balance_is_undefined_witness:
  "snd (stimulateAccount (ex_ledger 10) ex_public ex_client) = Inr (Some ((1, 2), (3, 4)))
   \<and> readBalanceWithOnchainData (ex_ultis (Some (Finite 0)) (Inl ''unused''))
        (Some ((1, 2), (3, 4))) (privateKey ex_client) = Some (Finite 0)
   \<and> read_counter (ex_ledger 10)
        (calculatePublicKeyHash (ex_ultis (Some (Finite 0)) (Inl ''unused''))
           (publicKey ex_client)) = Inr 7
   \<and> read_MAX (ex_ledger 10) = Inr 10
   \<and> list_all (\<lambda>ev. \<not> is_prove ev)
        (fst (burn (ex_ledger 10) ex_public (ex_ultis (Some (Finite 0)) (Inl ''unused''))
           ex_client ''0xacc'' ''0''))
   \<and> snd (burn (ex_ledger 10) ex_public (ex_ultis (Some (Finite 0)) (Inl ''unused''))
        ex_client ''0xacc'' ''0'') = Inl (Error ''Current balance is undefined'')
   \<and> list_all (\<lambda>ev. \<not> is_prove ev)
        (fst (transfer (ex_ledger 10) ex_public (ex_ultis (Some (Finite 0)) (Inl ''unused''))
           ex_client ''0xacc'' ''0'' (6, 7) 77))
   \<and> snd (transfer (ex_ledger 10) ex_public (ex_ultis (Some (Finite 0)) (Inl ''unused''))
        ex_client ''0xacc'' ''0'' (6, 7) 77) = Inl (Error ''Current balance is undefined'')"
proof -
  let ?U = "ex_ultis (Some (Finite 0)) (Inl ''unused'')"
  have h1: "snd (stimulateAccount (ex_ledger 10) ex_public ex_client) =
      Inr (Some ((1, 2), (3, 4)))"
    by (simp add: ex_stimulateAccount)
  have h2: "readBalanceWithOnchainData ?U (Some ((1, 2), (3, 4))) (privateKey ex_client) =
      Some (Finite 0)"
    by (simp add: ex_defs)
  have h3: "read_counter (ex_ledger 10) (calculatePublicKeyHash ?U (publicKey ex_client)) =
      Inr 7"
    by (simp add: ex_defs)
  have h4: "read_MAX (ex_ledger 10) = Inr 10"
    by (simp add: ex_defs)
  from zero_balance_is_undefined [OF h1 h2, where account = "''0xacc''" and amount = "''0''"
      and counter = 7 and receiverPublicKey = "(6, 7)" and r = 77 and mx = 10]
    h1 h2 h3 h4
  show ?thesis by blast
qed

text \<open>
  C10. When the account simulation returns and the decode of the account finds
  no balance, \<^verbatim>\<open>getCurrentBalance\<close> returns \<^verbatim>\<open>undefined\<close>; it throws nothing.
\<close>

theorem getCurrentBalance_undecodable:
  assumes "snd (stimulateAccount BasicZether publicClient this) = Inr accountData"
    and "readBalanceWithOnchainData U accountData (privateKey this) = None"
  shows "snd (getCurrentBalance BasicZether publicClient U this) = Inr None"
  using assms by (simp add: getCurrentBalance_def snd_bind_io)

theorem getCurrentBalance_undecodable_witness:
  "snd (stimulateAccount (ex_ledger 10) ex_public ex_client) = Inr (Some ((1, 2), (3, 4)))
   \<and> readBalanceWithOnchainData (ex_ultis None (Inl ''unused''))
        (Some ((1, 2), (3, 4))) (privateKey ex_client) = None
   \<and> snd (getCurrentBalance (ex_ledger 10) ex_public (ex_ultis None (Inl ''unused''))
        ex_client) = Inr None"
proof -
  have h1: "snd (stimulateAccount (ex_ledger 10) ex_public ex_client) =
      Inr (Some ((1, 2), (3, 4)))"
    by (simp add: ex_stimulateAccount)
  have h2: "readBalanceWithOnchainData (ex_ultis None (Inl ''unused''))
        (Some ((1, 2), (3, 4))) (privateKey ex_client) = None"
    by (simp add: ex_defs)
  from getCurrentBalance_undecodable [OF h1 h2] h1 h2
  show ?thesis by blast
qed

subsection \<open>Errors and the ledger write\<close>

text \<open>
  C5. In every run of \<^verbatim>\<open>burn\<close> or \<^verbatim>\<open>transfer\<close> that ends in an error other than
  the ledger's rejection of the write, no ledger write was issued: the error was
  raised before \<^verbatim>\<open>write.burn\<close> or \<^verbatim>\<open>write.transfer\<close>, which are the only calls
  of the two methods that change the ledger.
\<close>

theorem local_error_before_write:
  "(snd (burn BasicZether publicClient U this account amount) = Inl e \<and>
      (\<forall>reason. e \<noteq> ChainRejected reason) \<longrightarrow>
      list_all (\<lambda>ev. \<not> is_write ev) (fst (burn BasicZether publicClient U this account amount)))
   \<and> (snd (transfer BasicZether publicClient U this account amount receiverPublicKey r) = Inl e' \<and>
      (\<forall>reason. e' \<noteq> ChainRejected reason) \<longrightarrow>
      list_all (\<lambda>ev. \<not> is_write ev)
        (fst (transfer BasicZether publicClient U this account amount receiverPublicKey r)))"
proof (intro conjI impI)
  assume "snd (burn BasicZether publicClient U this account amount) = Inl e \<and>
      (\<forall>reason. e \<noteq> ChainRejected reason)"
  then show "list_all (\<lambda>ev. \<not> is_write ev)
      (fst (burn BasicZether publicClient U this account amount))"
    using stimulateAccount_reads_only [of BasicZether publicClient this]
    by (auto simp add: burn_def fst_bind_io snd_bind_io Let_def from_write_def list_all_iff
      split: sum.splits prod.splits)
next
  assume "snd (transfer BasicZether publicClient U this account amount receiverPublicKey r) =
      Inl e' \<and> (\<forall>reason. e' \<noteq> ChainRejected reason)"
  then show "list_all (\<lambda>ev. \<not> is_write ev)
        (fst (transfer BasicZether publicClient U this account amount receiverPublicKey r))"
    using stimulateAccount_reads_only [of BasicZether publicClient this]
    by (auto simp add: transfer_def fst_bind_io snd_bind_io Let_def from_write_def list_all_iff
      split: sum.splits prod.splits)
qed

theorem local_error_before_write_witness:
  "snd (burn (ex_ledger 10) ex_public
          (ex_ultis (Some (Finite 3)) (Inr \<lparr>proof_obj = [], publicSignals = []\<rparr>))
          ex_client ''0xacc'' ''1.5'') = Inl SyntaxError
   \<and> (\<forall>reason. SyntaxError \<noteq> ChainRejected reason)
   \<and> list_all (\<lambda>ev. \<not> is_write ev)
        (fst (burn (ex_ledger 10) ex_public
          (ex_ultis (Some (Finite 3)) (Inr \<lparr>proof_obj = [], publicSignals = []\<rparr>))
          ex_client ''0xacc'' ''1.5''))
   \<and> snd (transfer (ex_ledger 10) ex_public
          (ex_ultis (Some (Finite 3)) (Inr \<lparr>proof_obj = [], publicSignals = []\<rparr>))
          ex_client ''0xacc'' ''1.5'' (6, 7) 77) = Inl SyntaxError
   \<and> list_all (\<lambda>ev. \<not> is_write ev)
        (fst (transfer (ex_ledger 10) ex_public
          (ex_ultis (Some (Finite 3)) (Inr \<lparr>proof_obj = [], publicSignals = []\<rparr>))
          ex_client ''0xacc'' ''1.5'' (6, 7) 77))"
proof -
  let ?U = "ex_ultis (Some (Finite 3)) (Inr \<lparr>proof_obj = [], publicSignals = []\<rparr>)"
  have b: "BigInt ''1.5'' = Inl SyntaxError"
    by (simp add: BigInt_def StringToBigInt_def trim_def is_ws_def is_digits_def digit_of_def)
  have h1: "snd (burn (ex_ledger 10) ex_public ?U ex_client ''0xacc'' ''1.5'') =
      Inl SyntaxError"
    by (simp add: burn_def run_defs ex_defs b)
  have h2: "snd (transfer (ex_ledger 10) ex_public ?U ex_client ''0xacc'' ''1.5'' (6, 7) 77) =
      Inl SyntaxError"
    by (simp add: transfer_def run_defs ex_defs b)
  have h3: "\<forall>reason. SyntaxError \<noteq> ChainRejected reason"
    by simp
  from local_error_before_write [where BasicZether = "ex_ledger 10"
      and publicClient = ex_public and U = ?U and this = ex_client and account = "''0xacc''"
      and amount = "''1.5''" and e = SyntaxError and receiverPublicKey = "(6, 7)" and r = 77
      and e' = SyntaxError] h1 h2 h3
  show ?thesis by blast
qed

subsection \<open>The lock\<close>

text \<open>
  C6. For every contract address and lock address that \<^verbatim>\<open>getAddress\<close> accepts,
  \<^verbatim>\<open>lock\<close> issues one call, the ledger's \<^verbatim>\<open>lock\<close>, for the client's public key
  and the normalised lock address, with the pair \<open>(c, s)\<close> that
  \<^verbatim>\<open>schnorrChallenge\<close> returns for the normalised contract address, the
  normalised lock address, the public key and the private key of the account.
\<close>

theorem lock_submits_schnorr_pair:
  assumes "getAddress U lockAddress = Inr la"
    and "getAddress U (address BasicZether) = Inr ca"
    and "getAddress U la = Inr la'"
    and "schnorrChallenge U ca la' (publicKey this) (privateKey this) = (c, s)"
  shows "fst (lock BasicZether U this account lockAddress) =
           [Write_lock (publicKey this) la c s account]
       \<and> snd (lock BasicZether U this account lockAddress) =
           from_write (write_lock BasicZether (publicKey this) la c s account)"
  using assms by (simp add: lock_def fst_bind_io snd_bind_io address_of_def Let_def)

theorem lock_submits_schnorr_pair_witness:
  "getAddress (ex_ultis None (Inl ''unused'')) ''0x11'' = Inr ''0x11''
   \<and> getAddress (ex_ultis None (Inl ''unused'')) (address (ex_ledger 10)) = Inr ''0xc0''
   \<and> schnorrChallenge (ex_ultis None (Inl ''unused'')) ''0xc0'' ''0x11''
        (publicKey ex_client) (privateKey ex_client) = (11, 13)
   \<and> fst (lock (ex_ledger 10) (ex_ultis None (Inl ''unused'')) ex_client ''0xacc'' ''0x11'') =
        [Write_lock (8, 9) ''0x11'' 11 13 ''0xacc'']
   \<and> snd (lock (ex_ledger 10) (ex_ultis None (Inl ''unused'')) ex_client ''0xacc'' ''0x11'') =
        Inr ''0xb3''"
proof -
  let ?U = "ex_ultis None (Inl ''unused'')"
  have h1: "getAddress ?U ''0x11'' = Inr ''0x11''"
    and h2: "getAddress ?U (address (ex_ledger 10)) = Inr ''0xc0''"
    and h4: "schnorrChallenge ?U ''0xc0'' ''0x11'' (publicKey ex_client) (privateKey ex_client) =
      (11, 13)"
    by (simp_all add: ex_defs)
  have pk: "publicKey ex_client = (8, 9)"
    and w: "write_lock (ex_ledger 10) (8, 9) ''0x11'' 11 13 ''0xacc'' = Inr ''0xb3''"
    by (simp_all add: ex_defs)
  from lock_submits_schnorr_pair [OF h1 h2 h1 h4, where account = "''0xacc''"] h1 h2 h4
  show ?thesis by (simp add: pk w from_write_def)
qed

subsection \<open>\<^verbatim>\<open>toUnitsByDecimals\<close>\<close>

text \<open>
  C7, as stated, fails: \<^verbatim>\<open>toUnitsByDecimals\<close> checks no bound. It returns the
  negative bigint \<open>-1\<close>, and a bigint above the client's \<open>MAX\<close>, as they are.
\<close>

theorem toUnitsByDecimals_bound_counterexample:
  "toUnitsByDecimals (AmountBigint (- 1)) 4 = Inr (- 1)
   \<and> toUnitsByDecimals (AmountBigint (client_MAX ex_client + 1)) 4 = Inr 4294967296"
  by (simp add: ex_client_def)

text \<open>
  C7, amended. \<^verbatim>\<open>toUnitsByDecimals\<close> collapses an amount, given as a string, a
  number or a bigint, to one integer, and checks no bound on it: a bigint is
  returned as it is, whatever its sign and size; a number is treated as the
  string it prints as; a string of decimal digits, of any length, gives its value
  times \<open>10 ^ decimals\<close>, and with a minus sign in front the negative of that.
\<close>

theorem toUnitsByDecimals_checks_no_bound:
  assumes "ds \<noteq> []" and "list_all (\<lambda>c. digit_of c < 10) ds" and "0 \<le> decimals"
  shows "toUnitsByDecimals (AmountBigint a) decimals = Inr a
       \<and> toUnitsByDecimals (AmountNumber s) decimals =
           toUnitsByDecimals (AmountString s) decimals
       \<and> toUnitsByDecimals (AmountString ds) decimals =
           Inr (int (digits_value 10 ds) * 10 ^ nat decimals)
       \<and> toUnitsByDecimals (AmountString (CHR ''-'' # ds)) decimals =
           Inr (- (int (digits_value 10 ds) * 10 ^ nat decimals))"
  using toUnits_int_string [OF assms(2,3)] toUnits_negative_string [OF assms]
  by (simp only: toUnitsByDecimals.simps)

theorem toUnitsByDecimals_checks_no_bound_witness:
  "''5'' \<noteq> [] \<and> list_all (\<lambda>c. digit_of c < 10) ''5'' \<and> (0::int) \<le> 4
   \<and> toUnitsByDecimals (AmountBigint (- 7)) 4 = Inr (- 7)
   \<and> toUnitsByDecimals (AmountString ''5'') 4 = Inr 50000
   \<and> toUnitsByDecimals (AmountString ''-5'') 4 = Inr (- 50000)"
proof -
  have h1: "''5'' \<noteq> []" by simp
  have h2: "list_all (\<lambda>c. digit_of c < 10) ''5''" by (simp add: digit_of_def)
  have h3: "(0::int) \<le> 4" by simp
  from toUnitsByDecimals_checks_no_bound [OF h1 h2 h3, where a = "- 7"] h2
  show ?thesis
    by (simp add: digits_value_def digit_of_def)
qed

text \<open>
  C9. \<^verbatim>\<open>toUnitsByDecimals\<close> returns a bigint as it is, for every \<open>decimals\<close>. For
  a string of decimal digits \<open>intPart\<close>, a dot and decimal digits \<open>fracPart\<close>, and
  \<open>decimals\<close> at least 0, the result is the value of \<open>intPart\<close> followed by
  \<open>fracPart\<close> padded with zeros or cut to \<open>decimals\<close> digits, which is the value
  of \<open>intPart\<close> times \<open>10 ^ decimals\<close> plus the fraction scaled and rounded down;
  a string of digits alone gives its value times \<open>10 ^ decimals\<close>.
\<close>

theorem toUnitsByDecimals_bigint_as_is_string_scaled:
  assumes "list_all (\<lambda>c. digit_of c < 10) intPart"
    and "list_all (\<lambda>c. digit_of c < 10) fracPart"
    and "0 \<le> decimals"
  shows "toUnitsByDecimals (AmountBigint a) d = Inr a
       \<and> toUnitsByDecimals (AmountString (intPart @ ''.'' @ fracPart)) decimals =
           Inr (int (digits_value 10 (intPart @
             take (nat decimals) (fracPart @ replicate (nat decimals) CHR ''0''))))
       \<and> length (take (nat decimals) (fracPart @ replicate (nat decimals) CHR ''0'')) =
           nat decimals
       \<and> toUnitsByDecimals (AmountString (intPart @ ''.'' @ fracPart)) decimals =
           Inr (int (digits_value 10 intPart) * 10 ^ nat decimals +
                int (digits_value 10 fracPart * 10 ^ nat decimals div 10 ^ length fracPart))
       \<and> toUnitsByDecimals (AmountString intPart) decimals =
           Inr (int (digits_value 10 intPart) * 10 ^ nat decimals)"
proof -
  let ?frac = "take (nat decimals) (fracPart @ replicate (nat decimals) CHR ''0'')"
  have len: "length ?frac = nat decimals"
    by simp
  have s: "toUnitsByDecimals (AmountString (intPart @ ''.'' @ fracPart)) decimals =
      Inr (int (digits_value 10 (intPart @ ?frac)))"
    using toUnits_string_digits [OF assms] by simp
  have "digits_value 10 (intPart @ ?frac) =
      digits_value 10 intPart * 10 ^ nat decimals +
      digits_value 10 fracPart * 10 ^ nat decimals div 10 ^ length fracPart"
    by (simp only: digits_value_append len digits_value_take_padded [OF assms(2)])
  then have n: "int (digits_value 10 (intPart @ ?frac)) =
      int (digits_value 10 intPart) * 10 ^ nat decimals +
      int (digits_value 10 fracPart * 10 ^ nat decimals div 10 ^ length fracPart)"
    by simp
  show ?thesis
    using s len toUnits_int_string [OF assms(1,3)]
    by (simp only: n toUnitsByDecimals.simps)
qed

theorem toUnitsByDecimals_bigint_as_is_string_scaled_witness:
  "list_all (\<lambda>c. digit_of c < 10) ''12'' \<and> list_all (\<lambda>c. digit_of c < 10) ''3456''
   \<and> (0::int) \<le> 2
   \<and> toUnitsByDecimals (AmountBigint 12) 2 = Inr 12
   \<and> toUnitsByDecimals (AmountString ''12.3456'') 2 = Inr 1234
   \<and> toUnitsByDecimals (AmountString ''12'') 2 = Inr 1200"
proof -
  have h1: "list_all (\<lambda>c. digit_of c < 10) ''12''"
    and h2: "list_all (\<lambda>c. digit_of c < 10) ''3456''"
    by (simp_all add: digit_of_def)
  have h3: "(0::int) \<le> 2" by simp
  from toUnitsByDecimals_bigint_as_is_string_scaled [OF h1 h2 h3, where a = 12 and d = 2] h1 h2
  show ?thesis
    by (simp add: digits_value_def digit_of_def)
qed

end
